theory Spec2Isabelle
  imports Main "HOL-Library.AList"
begin

section \<open>The question model of \<^verbatim>\<open>app/Models/Questions.py\<close>\<close>

subsection \<open>Values\<close>

text \<open>
  The values that travel through the serialised form of a question: what \<^verbatim>\<open>json.loads\<close>
  returns and what \<^verbatim>\<open>json_data\<close> builds. A Python dict keeps its insertion order
  and \<^verbatim>\<open>MatchingQuestion.validate_response\<close> reads that order, so a dict is an
  association list; a genuine dict has each key once. Floats are left out.
\<close>

datatype json =
    JNone
  | JBool bool
  | JInt int
  | JStr string
  | JList "json list"
  | JDict "(string \<times> json) list"

type_synonym dict = "(string \<times> json) list"

text \<open>\<^verbatim>\<open>d.get(k)\<close>: the value, or \<^verbatim>\<open>None\<close> when the key is absent.\<close>

definition dict_get :: "dict \<Rightarrow> string \<Rightarrow> json" where
  "dict_get d k = (case map_of d k of None \<Rightarrow> JNone | Some v \<Rightarrow> v)"

text \<open>\<^verbatim>\<open>k in d\<close>.\<close>

definition has_key :: "dict \<Rightarrow> string \<Rightarrow> bool" where
  "has_key d k = (k \<in> set (map fst d))"

subsection \<open>Exceptions\<close>

text \<open>
  Every \<^verbatim>\<open>raise\<close> of the source is one constructor, named after the place that raises;
  \<open>exception_class\<close> gives the Python class of the exception raised there.
\<close>

datatype py_exception = TypeError | ValueError | KeyError | AttributeError | AssertionError

datatype error =
    NotADictionary
    \<comment> \<open>l.44: \<^verbatim>\<open>TypeError("The json representation must be a dictionary")\<close>\<close>
  | PopMissingKey string
    \<comment> \<open>l.46, l.47: \<^verbatim>\<open>dict.pop(key)\<close> without a default, on an absent key\<close>
  | QuestionTypeMissing
    \<comment> \<open>l.49: \<^verbatim>\<open>ValueError("The value passed to ... must be question and have a type")\<close>\<close>
  | QuestionTypeNotSupported json
    \<comment> \<open>l.59: \<^verbatim>\<open>ValueError("This question type is not supported: {}")\<close>\<close>
  | InvalidResponseType
    \<comment> \<open>l.69: \<^verbatim>\<open>ValueError("Invalid response type: {} for a question of type: {}")\<close>\<close>
  | AnswerNotInChoices
    \<comment> \<open>l.112: \<^verbatim>\<open>ValueError("The answer must be reflected in the choices")\<close>\<close>
  | ChoiceKeyMissing
    \<comment> \<open>l.124: \<^verbatim>\<open>ValueError("The key choice is not in the representation ...")\<close>\<close>
  | ChoiceNotInChoices
    \<comment> \<open>l.127: \<^verbatim>\<open>ValueError("Response choice present but not reflected in question choices")\<close>\<close>
  | AnswerNotInLeftChoices
    \<comment> \<open>l.149: \<^verbatim>\<open>ValueError("All left choices in the question must be reflected ...")\<close>\<close>
  | AnswerNotInRightChoices
    \<comment> \<open>l.151: \<^verbatim>\<open>ValueError("All of the right choices in the answer must be reflected ...")\<close>\<close>
  | AnswerMappingMissing
    \<comment> \<open>l.157: \<^verbatim>\<open>ValueError("There is no answer mapping present in the response {}")\<close>\<close>
  | LengthAssertion
    \<comment> \<open>l.160: \<^verbatim>\<open>assert len(right) == len(left)\<close>\<close>
  | LeftChoicesDiffer
    \<comment> \<open>l.162: \<^verbatim>\<open>ValueError("Left choices for the answer must be the same ...")\<close>\<close>
  | RightChoicesDiffer
    \<comment> \<open>l.165: \<^verbatim>\<open>ValueError("Right_choices for this question object does not contain ...")\<close>\<close>
  | NoSuchAttribute string
    \<comment> \<open>a method looked up on a value that has none of that name (\<^verbatim>\<open>None.keys()\<close>)\<close>
  | BadKeywordArguments
    \<comment> \<open>the call \<^verbatim>\<open>Cls(**kwargs)\<close> with an unknown keyword or without a required one\<close>
  | JSONDecodeError
    \<comment> \<open>\<^verbatim>\<open>json.loads\<close> on a text that is not JSON; a subclass of \<^verbatim>\<open>ValueError\<close>\<close>
  | ResponseTypeMissing
    \<comment> \<open>raised by the model of \<^verbatim>\<open>Response.create_a_response\<close> below\<close>
  | OutsideAnnotations
    \<comment> \<open>no Python exception: a keyword argument outside the annotated type of its parameter\<close>

fun exception_class :: "error \<Rightarrow> py_exception option" where
  "exception_class NotADictionary = Some TypeError"
| "exception_class (PopMissingKey k) = Some KeyError"
| "exception_class LengthAssertion = Some AssertionError"
| "exception_class (NoSuchAttribute a) = Some AttributeError"
| "exception_class BadKeywordArguments = Some TypeError"
| "exception_class OutsideAnnotations = None"
| "exception_class e = Some ValueError"

subsection \<open>Responses\<close>

text \<open>
  Modelled from the spec: the class \<^verbatim>\<open>Response\<close> of \<^verbatim>\<open>app/Models/Response.py\<close>, which
  \<^verbatim>\<open>Questions.py\<close> imports and which is not among the sources. The spec describes a value
  tagged by a \<^verbatim>\<open>type\<close>, carrying a payload that depends on the variant (a \<^verbatim>\<open>choice\<close> key, an
  \<^verbatim>\<open>answer_mapping\<close>), serialised to and from a plain mapping, with no invariant across its
  fields beyond the type tag. A response is therefore represented by the mapping it serialises
  to; its type tag is the \<^verbatim>\<open>type\<close> entry of that mapping, and two responses are equal when
  their mappings are.
\<close>

datatype response = Response (response_json_data: dict)

text \<open>Modelled from the spec: \<^verbatim>\<open>Response.get_type\<close>, the type tag of the response.\<close>

definition response_get_type :: "response \<Rightarrow> json" where
  "response_get_type r = dict_get (response_json_data r) ''type''"

text \<open>
  Modelled from the spec: \<^verbatim>\<open>Response.create_a_response\<close>, the factory symmetric to
  \<^verbatim>\<open>json_data\<close>, on a mapping; it needs the type discriminator. A response object never
  reaches it from \<^verbatim>\<open>Questions.py\<close>.
\<close>

definition create_a_response :: "dict \<Rightarrow> error + response" where
  "create_a_response d =
     (if dict_get d ''type'' = JNone then Inl ResponseTypeMissing else Inr (Response d))"

subsection \<open>Questions\<close>

text \<open>
  The attributes set by \<^verbatim>\<open>Question.__init__\<close> are the fields \<open>qtype\<close>, \<open>object_id\<close> and
  \<open>responses\<close> (\<^verbatim>\<open>self._responses\<close>); the attributes a subclass adds, and the subclass
  itself, are the field \<open>variant\<close>. Parameters carry the types the source annotates them
  with. The attribute \<^verbatim>\<open>answer\<close> of a matching question is a dict, read by the selector
  \<open>matching_answer\<close>.
\<close>

datatype variant =
    MultipleChoiceQuestion (prompt: string) (choices: "string list") (answer: string)
  | MatchingQuestion (prompt: string) (left_choices: "string list")
      (right_choices: "string list") (matching_answer: "(string \<times> string) list")
  | ShortAnswerQuestion (prompt: string) (answer: string)
  | FillInTheBlankQuestion (before_prompt: string) (after_prompt: string) (answer: string)

record question =
  qtype :: string
  object_id :: string
  responses :: "response list"
  variant :: variant

definition get_type :: "question \<Rightarrow> string" where
  "get_type q = qtype q"

definition get_responses :: "question \<Rightarrow> response list" where
  "get_responses q = responses q"

text \<open>
  \<^verbatim>\<open>Question.__init__(self, object_id, responses, type)\<close>. The identifier that
  \<^verbatim>\<open>uuid.uuid4()\<close> would draw is the argument \<open>fresh\<close>. The \<^verbatim>\<open>responses\<close> argument is not
  used here: the list starts empty.
\<close>

definition Question_init :: "string option \<Rightarrow> string \<Rightarrow> string \<Rightarrow> variant \<Rightarrow> question" where
  "Question_init oid fresh t v =
     \<lparr>qtype = t,
      object_id = (case oid of None \<Rightarrow> fresh | Some i \<Rightarrow> i),
      responses = [],
      variant = v\<rparr>"

subsection \<open>Removing duplicate choices\<close>

text \<open>
  \<^verbatim>\<open>list(dict.fromkeys(xs))\<close>: the keys are inserted one after the other into an empty
  dict, a key already present keeps its place, and the list of keys is read back in
  insertion order.
\<close>

fun fromkeys :: "'a list \<Rightarrow> 'a list \<Rightarrow> 'a list" where
  "fromkeys seen [] = seen"
| "fromkeys seen (k # ks) = fromkeys (if k \<in> set seen then seen else seen @ [k]) ks"

definition list_fromkeys :: "'a list \<Rightarrow> 'a list" where
  "list_fromkeys xs = fromkeys [] xs"

text \<open>
  The spec's wording, to compare with: the list with its duplicates removed, each element
  staying where it first occurs.
\<close>

fun first_occurrences :: "'a list \<Rightarrow> 'a list" where
  "first_occurrences [] = []"
| "first_occurrences (x # xs) = x # first_occurrences (removeAll x xs)"

subsection \<open>Validating and attaching a response\<close>

text \<open>
  \<^verbatim>\<open>validate_response\<close> of the four subclasses. It reads \<^verbatim>\<open>response.json_data\<close> and changes
  nothing. In \<^verbatim>\<open>MatchingQuestion\<close>, \<^verbatim>\<open>.keys()\<close> and \<^verbatim>\<open>.values()\<close> are called on whatever
  value \<^verbatim>\<open>answer_mapping\<close> holds; only a dict has them.
\<close>

fun validate_response :: "variant \<Rightarrow> response \<Rightarrow> error + unit" where
  "validate_response (MultipleChoiceQuestion p cs a) r =
     (let response_json = response_json_data r in
      if \<not> has_key response_json ''choice'' then Inl ChoiceKeyMissing
      else if dict_get response_json ''choice'' \<notin> set (map JStr cs) then Inl ChoiceNotInChoices
      else Inr ())"
| "validate_response (MatchingQuestion p ls rs a) r =
     (let response_json = response_json_data r in
      if \<not> has_key response_json ''answer_mapping'' then Inl AnswerMappingMissing
      else case dict_get response_json ''answer_mapping'' of
        JDict m \<Rightarrow>
          (let left = map fst m; right = map snd m in
           if length right \<noteq> length left then Inl LengthAssertion
           else if left \<noteq> ls then Inl LeftChoicesDiffer
           else if \<not> list_all (\<lambda>right_choice.
                      right_choice \<in> set (map JStr rs) \<or> right_choice = JNone) right
             then Inl RightChoicesDiffer
           else Inr ())
      | _ \<Rightarrow> Inl (NoSuchAttribute ''keys''))"
| "validate_response (ShortAnswerQuestion p a) r = Inr ()"
| "validate_response (FillInTheBlankQuestion b a ans) r = Inr ()"

text \<open>
  \<^verbatim>\<open>Question.add_response\<close>. The call changes \<^verbatim>\<open>self\<close>, so the model returns the outcome
  together with the question as it is after the call, whether the call raised or not. The
  test \<^verbatim>\<open>isinstance(response, Response)\<close> holds by the type of the argument.
\<close>

definition add_response :: "question \<Rightarrow> response \<Rightarrow> (error + unit) \<times> question" where
  "add_response q r =
     (if response_get_type r \<noteq> JStr (get_type q) then (Inl InvalidResponseType, q)
      else case validate_response (variant q) r of
        Inl e \<Rightarrow> (Inl e, q)
      | Inr u \<Rightarrow> (Inr (), q\<lparr>responses := responses q @ [r]\<rparr>))"

subsection \<open>Constructors\<close>

text \<open>
  An element of the \<^verbatim>\<open>responses\<close> argument (\<^verbatim>\<open>List[Dict or Response]\<close>) is a raw mapping
  or a response object.
\<close>

datatype response_arg = RawResponse dict | ResponseObject response

text \<open>
  The list comprehension of \<^verbatim>\<open>_initialize_responses\<close>: every mapping goes through
  \<^verbatim>\<open>Response.create_a_response\<close>, before any response is attached.
\<close>

fun create_responses :: "response_arg list \<Rightarrow> error + response list" where
  "create_responses [] = Inr []"
| "create_responses (x # xs) =
     (case (case x of RawResponse d \<Rightarrow> create_a_response d | ResponseObject r \<Rightarrow> Inr r) of
        Inl e \<Rightarrow> Inl e
      | Inr r \<Rightarrow>
          (case create_responses xs of Inl e \<Rightarrow> Inl e | Inr rs \<Rightarrow> Inr (r # rs)))"

text \<open>The \<^verbatim>\<open>for\<close> loop of \<^verbatim>\<open>_initialize_responses\<close>; the first failure ends it.\<close>

fun add_responses :: "question \<Rightarrow> response list \<Rightarrow> (error + unit) \<times> question" where
  "add_responses q [] = (Inr (), q)"
| "add_responses q (r # rs) =
     (case add_response q r of
        (Inl e, q') \<Rightarrow> (Inl e, q')
      | (Inr u, q') \<Rightarrow> add_responses q' rs)"

definition initialize_responses ::
  "question \<Rightarrow> response_arg list option \<Rightarrow> (error + unit) \<times> question" where
  "initialize_responses q rs =
     (case rs of
        None \<Rightarrow> (Inr (), q)
      | Some xs \<Rightarrow>
          if length xs > 0 then
            (case create_responses xs of
               Inl e \<Rightarrow> (Inl e, q)
             | Inr response_objects \<Rightarrow> add_responses q response_objects)
          else (Inr (), q))"

text \<open>
  \<^verbatim>\<open>MultipleChoiceQuestion.__init__\<close>: the responses are attached before the answer is
  checked, and the answer is looked up in the \<^verbatim>\<open>choices\<close> argument, not in the stored
  list. A constructor that raises leaves no object.
\<close>

definition MultipleChoiceQuestion_init ::
  "string \<Rightarrow> string list \<Rightarrow> string \<Rightarrow> response_arg list option \<Rightarrow> string option \<Rightarrow> string
     \<Rightarrow> error + question" where
  "MultipleChoiceQuestion_init p cs a rs oid fresh =
     (let self = Question_init oid fresh ''multiple_choice''
                   (MultipleChoiceQuestion p (list_fromkeys cs) a) in
      case initialize_responses self rs of
        (Inl e, self') \<Rightarrow> Inl e
      | (Inr u, self') \<Rightarrow> if a \<notin> set cs then Inl AnswerNotInChoices else Inr self')"

text \<open>
  \<^verbatim>\<open>MatchingQuestion.__init__\<close>: both checks run over \<^verbatim>\<open>self.answer.values()\<close>, the first
  against the left choices and the second against the right choices; then the responses
  are attached.
\<close>

definition MatchingQuestion_init ::
  "string \<Rightarrow> string list \<Rightarrow> string list \<Rightarrow> (string \<times> string) list
     \<Rightarrow> response_arg list option \<Rightarrow> string option \<Rightarrow> string \<Rightarrow> error + question" where
  "MatchingQuestion_init p ls rs a resps oid fresh =
     (let self = Question_init oid fresh ''matching''
                   (MatchingQuestion p (list_fromkeys ls) (list_fromkeys rs) a) in
      if \<not> list_all (\<lambda>left_choice. left_choice \<in> set (left_choices (variant self)))
               (map snd a)
        then Inl AnswerNotInLeftChoices
      else if \<not> list_all (\<lambda>correct_answer. correct_answer \<in> set (right_choices (variant self)))
               (map snd a)
        then Inl AnswerNotInRightChoices
      else case initialize_responses self resps of
        (Inl e, self') \<Rightarrow> Inl e
      | (Inr u, self') \<Rightarrow> Inr self')"

definition ShortAnswerQuestion_init ::
  "string \<Rightarrow> string \<Rightarrow> response_arg list option \<Rightarrow> string option \<Rightarrow> string
     \<Rightarrow> error + question" where
  "ShortAnswerQuestion_init p a rs oid fresh =
     (let self = Question_init oid fresh ''short_answer'' (ShortAnswerQuestion p a) in
      case initialize_responses self rs of
        (Inl e, self') \<Rightarrow> Inl e
      | (Inr u, self') \<Rightarrow> Inr self')"

definition FillInTheBlankQuestion_init ::
  "string \<Rightarrow> string \<Rightarrow> string \<Rightarrow> response_arg list option \<Rightarrow> string option \<Rightarrow> string
     \<Rightarrow> error + question" where
  "FillInTheBlankQuestion_init b af a rs oid fresh =
     (let self = Question_init oid fresh ''fill_in_the_blank''
                   (FillInTheBlankQuestion b af a) in
      case initialize_responses self rs of
        (Inl e, self') \<Rightarrow> Inl e
      | (Inr u, self') \<Rightarrow> Inr self')"

subsection \<open>Serialisation\<close>

text \<open>The property \<^verbatim>\<open>json_data\<close> of the four subclasses.\<close>

definition responses_json :: "question \<Rightarrow> json" where
  "responses_json q = JList (map (\<lambda>response. JDict (response_json_data response)) (responses q))"

definition json_data :: "question \<Rightarrow> dict" where
  "json_data q =
     (case variant q of
        MultipleChoiceQuestion p cs a \<Rightarrow>
          [(''kind'', JStr ''question''), (''object_id'', JStr (object_id q)),
           (''type'', JStr ''multiple_choice''), (''prompt'', JStr p),
           (''choices'', JList (map JStr cs)),
           (''answer'', JStr a),
           (''responses'', responses_json q)]
      | MatchingQuestion p ls rs a \<Rightarrow>
          [(''kind'', JStr ''question''), (''object_id'', JStr (object_id q)),
           (''type'', JStr ''matching''), (''prompt'', JStr p),
           (''left_choices'', JList (map JStr ls)),
           (''right_choices'', JList (map JStr rs)),
           (''answer'', JDict (map (\<lambda>(k, v). (k, JStr v)) a)),
           (''responses'', responses_json q)]
      | ShortAnswerQuestion p a \<Rightarrow>
          [(''kind'', JStr ''question''), (''object_id'', JStr (object_id q)),
           (''type'', JStr ''short_answer''), (''prompt'', JStr p),
           (''answer'', JStr a), (''responses'', responses_json q)]
      | FillInTheBlankQuestion b af a \<Rightarrow>
          [(''kind'', JStr ''question''), (''object_id'', JStr (object_id q)),
           (''type'', JStr ''fill_in_the_blank''), (''before_prompt'', JStr b),
           (''after_prompt'', JStr af), (''answer'', JStr a),
           (''responses'', responses_json q)])"

subsection \<open>The factory\<close>

text \<open>
  The call \<^verbatim>\<open>Cls(**json_as_dictionary)\<close> binds the entries of the mapping to the parameters
  of the constructor: Python raises \<^verbatim>\<open>TypeError\<close> for a keyword that is no parameter and for
  a parameter without default that gets no value. The constructors above take arguments of
  the annotated types, so the bound values are read at those types; a value of another
  type is where the model ends (\<open>OutsideAnnotations\<close>).
\<close>

definition binds :: "string list \<Rightarrow> string list \<Rightarrow> dict \<Rightarrow> bool" where
  "binds required optional kw =
     (set (map fst kw) \<subseteq> set (required @ optional) \<and> set required \<subseteq> set (map fst kw))"

fun as_str :: "json \<Rightarrow> string option" where
  "as_str (JStr s) = Some s"
| "as_str v = None"

fun as_str_list :: "json \<Rightarrow> string list option" where
  "as_str_list (JList xs) = those (map as_str xs)"
| "as_str_list v = None"

fun as_str_dict :: "json \<Rightarrow> (string \<times> string) list option" where
  "as_str_dict (JDict d) = those (map (\<lambda>(k, v). map_option (Pair k) (as_str v)) d)"
| "as_str_dict v = None"

fun as_response_arg :: "json \<Rightarrow> response_arg option" where
  "as_response_arg (JDict d) = Some (RawResponse d)"
| "as_response_arg v = None"

fun as_responses :: "json \<Rightarrow> response_arg list option option" where
  "as_responses JNone = Some None"
| "as_responses (JList xs) = map_option Some (those (map as_response_arg xs))"
| "as_responses v = None"

fun as_object_id :: "json \<Rightarrow> string option option" where
  "as_object_id JNone = Some None"
| "as_object_id (JStr s) = Some (Some s)"
| "as_object_id v = None"

definition MultipleChoiceQuestion_kwargs :: "string \<Rightarrow> dict \<Rightarrow> error + question" where
  "MultipleChoiceQuestion_kwargs fresh kw =
     (if \<not> binds [''prompt'', ''choices'', ''answer''] [''responses'', ''object_id''] kw
        then Inl BadKeywordArguments
      else case (as_str (dict_get kw ''prompt''), as_str_list (dict_get kw ''choices''),
                 as_str (dict_get kw ''answer''), as_responses (dict_get kw ''responses''),
                 as_object_id (dict_get kw ''object_id'')) of
        (Some p, Some cs, Some a, Some rs, Some oid) \<Rightarrow>
          MultipleChoiceQuestion_init p cs a rs oid fresh
      | _ \<Rightarrow> Inl OutsideAnnotations)"

definition MatchingQuestion_kwargs :: "string \<Rightarrow> dict \<Rightarrow> error + question" where
  "MatchingQuestion_kwargs fresh kw =
     (if \<not> binds [''prompt'', ''left_choices'', ''right_choices'', ''answer'']
              [''responses'', ''object_id''] kw
        then Inl BadKeywordArguments
      else case (as_str (dict_get kw ''prompt''), as_str_list (dict_get kw ''left_choices''),
                 as_str_list (dict_get kw ''right_choices''),
                 as_str_dict (dict_get kw ''answer''),
                 as_responses (dict_get kw ''responses''),
                 as_object_id (dict_get kw ''object_id'')) of
        (Some p, Some ls, Some rs, Some a, Some resps, Some oid) \<Rightarrow>
          MatchingQuestion_init p ls rs a resps oid fresh
      | _ \<Rightarrow> Inl OutsideAnnotations)"

definition ShortAnswerQuestion_kwargs :: "string \<Rightarrow> dict \<Rightarrow> error + question" where
  "ShortAnswerQuestion_kwargs fresh kw =
     (if \<not> binds [''prompt'', ''answer''] [''responses'', ''object_id''] kw
        then Inl BadKeywordArguments
      else case (as_str (dict_get kw ''prompt''), as_str (dict_get kw ''answer''),
                 as_responses (dict_get kw ''responses''),
                 as_object_id (dict_get kw ''object_id'')) of
        (Some p, Some a, Some rs, Some oid) \<Rightarrow> ShortAnswerQuestion_init p a rs oid fresh
      | _ \<Rightarrow> Inl OutsideAnnotations)"

definition FillInTheBlankQuestion_kwargs :: "string \<Rightarrow> dict \<Rightarrow> error + question" where
  "FillInTheBlankQuestion_kwargs fresh kw =
     (if \<not> binds [''before_prompt'', ''after_prompt'', ''answer'']
              [''responses'', ''object_id''] kw
        then Inl BadKeywordArguments
      else case (as_str (dict_get kw ''before_prompt''), as_str (dict_get kw ''after_prompt''),
                 as_str (dict_get kw ''answer''), as_responses (dict_get kw ''responses''),
                 as_object_id (dict_get kw ''object_id'')) of
        (Some b, Some af, Some a, Some rs, Some oid) \<Rightarrow>
          FillInTheBlankQuestion_init b af a rs oid fresh
      | _ \<Rightarrow> Inl OutsideAnnotations)"

text \<open>
  Lines 45 to 59 of \<^verbatim>\<open>Question.create_a_question\<close>, on the mapping. \<^verbatim>\<open>get\<close> reads the
  discriminator, the two \<^verbatim>\<open>pop\<close> calls remove \<^verbatim>\<open>type\<close> and \<^verbatim>\<open>kind\<close> and raise
  \<^verbatim>\<open>KeyError\<close> on an absent key, and only then is the discriminator compared with
  \<^verbatim>\<open>None\<close>.
\<close>

definition question_from_dictionary :: "string \<Rightarrow> dict \<Rightarrow> error + question" where
  "question_from_dictionary fresh json_as_dictionary =
     (let question_type = dict_get json_as_dictionary ''type'' in
      if \<not> has_key json_as_dictionary ''type'' then Inl (PopMissingKey ''type'')
      else let without_type = AList.delete ''type'' json_as_dictionary in
      if \<not> has_key without_type ''kind'' then Inl (PopMissingKey ''kind'')
      else let kw = AList.delete ''kind'' without_type in
      if question_type = JNone then Inl QuestionTypeMissing
      else if question_type = JStr ''multiple_choice'' then MultipleChoiceQuestion_kwargs fresh kw
      else if question_type = JStr ''matching'' then MatchingQuestion_kwargs fresh kw
      else if question_type = JStr ''short_answer'' then ShortAnswerQuestion_kwargs fresh kw
      else if question_type = JStr ''fill_in_the_blank''
        then FillInTheBlankQuestion_kwargs fresh kw
      else Inl (QuestionTypeNotSupported question_type))"

text \<open>
  What \<^verbatim>\<open>create_a_question\<close> can be given: a question, a dict, a string, or a value of
  another type. \<^verbatim>\<open>json.loads\<close> belongs to the Python library, so a string is given here by
  what \<^verbatim>\<open>json.loads\<close> makes of it: an exception or a value.
\<close>

datatype representation =
    AQuestion question
  | ADict dict
  | AString "error + json"
  | AnotherValue

text \<open>
  \<^verbatim>\<open>Question.create_a_question\<close>. When \<^verbatim>\<open>json.loads\<close> returns something other than a
  dict, \<^verbatim>\<open>.get\<close> is looked up on it at line 45. The deep copy of line 34 is the identity
  on values. The argument \<open>fresh\<close> is the identifier \<^verbatim>\<open>uuid.uuid4()\<close> would draw.
\<close>

definition create_a_question :: "string \<Rightarrow> representation \<Rightarrow> error + question" where
  "create_a_question fresh question_representation =
     (case question_representation of
        AQuestion q \<Rightarrow> Inr q
      | ADict d \<Rightarrow> question_from_dictionary fresh d
      | AString loaded \<Rightarrow>
          (case loaded of
             Inl e \<Rightarrow> Inl e
           | Inr (JDict d) \<Rightarrow> question_from_dictionary fresh d
           | Inr v \<Rightarrow> Inl (NoSuchAttribute ''get''))
      | AnotherValue \<Rightarrow> Inl NotADictionary)"

subsection \<open>Equality\<close>

text \<open>
  \<^verbatim>\<open>Question.__eq__\<close>: the same class and equal \<^verbatim>\<open>__dict__\<close>, attribute by attribute. Two
  Python dicts are equal when they hold the same items, in whatever order.
\<close>

fun same_attributes :: "variant \<Rightarrow> variant \<Rightarrow> bool" where
  "same_attributes (MultipleChoiceQuestion p cs a) (MultipleChoiceQuestion p' cs' a') =
     (p = p' \<and> cs = cs' \<and> a = a')"
| "same_attributes (MatchingQuestion p ls rs a) (MatchingQuestion p' ls' rs' a') =
     (p = p' \<and> ls = ls' \<and> rs = rs' \<and> set a = set a')"
| "same_attributes (ShortAnswerQuestion p a) (ShortAnswerQuestion p' a') =
     (p = p' \<and> a = a')"
| "same_attributes (FillInTheBlankQuestion b af a) (FillInTheBlankQuestion b' af' a') =
     (b = b' \<and> af = af' \<and> a = a')"
| "same_attributes v v' = False"

definition question_eq :: "question \<Rightarrow> question \<Rightarrow> bool" where
  "question_eq self other =
     (same_attributes (variant self) (variant other) \<and> qtype self = qtype other \<and>
      object_id self = object_id other \<and> responses self = responses other)"

subsection \<open>The questions a program can hold\<close>

text \<open>
  A question comes out of one of the four constructors, and changes only through
  \<^verbatim>\<open>add_response\<close>.
\<close>

inductive constructed :: "question \<Rightarrow> bool" where
  multiple_choice:
    "MultipleChoiceQuestion_init p cs a rs oid fresh = Inr q \<Longrightarrow> constructed q"
| matching:
    "MatchingQuestion_init p ls rs a resps oid fresh = Inr q \<Longrightarrow> constructed q"
| short_answer:
    "ShortAnswerQuestion_init p a rs oid fresh = Inr q \<Longrightarrow> constructed q"
| fill_in_the_blank:
    "FillInTheBlankQuestion_init b af a rs oid fresh = Inr q \<Longrightarrow> constructed q"
| response_added:
    "constructed q \<Longrightarrow> add_response q r = (Inr (), q') \<Longrightarrow> constructed q'"

subsection \<open>What holds of a constructed question\<close>

text \<open>
  A response is accepted by a question when \<^verbatim>\<open>add_response\<close> would attach it: the type
  tags agree and \<^verbatim>\<open>validate_response\<close> raises nothing.
\<close>

definition accepted :: "question \<Rightarrow> response \<Rightarrow> bool" where
  "accepted q r =
     (response_get_type r = JStr (get_type q) \<and> validate_response (variant q) r = Inr ())"

text \<open>
  What the constructors establish and \<^verbatim>\<open>add_response\<close> keeps: the type tag of the
  subclass, the checks of the constructor on the stored fields, and every attached response
  accepted.
\<close>

definition well_formed :: "question \<Rightarrow> bool" where
  "well_formed q =
     ((case variant q of
         MultipleChoiceQuestion p cs a \<Rightarrow>
           qtype q = ''multiple_choice'' \<and> distinct cs \<and> a \<in> set cs
       | MatchingQuestion p ls rs a \<Rightarrow>
           qtype q = ''matching'' \<and> distinct ls \<and> distinct rs \<and>
           list_all (\<lambda>v. v \<in> set ls \<and> v \<in> set rs) (map snd a)
       | ShortAnswerQuestion p a \<Rightarrow> qtype q = ''short_answer''
       | FillInTheBlankQuestion b af a \<Rightarrow> qtype q = ''fill_in_the_blank'') \<and>
      list_all (accepted q) (responses q))"

section \<open>Properties\<close>

subsection \<open>Dictionaries\<close>

lemma has_key_delete: "has_key (AList.delete k d) k' = (k' \<noteq> k \<and> has_key d k')"
  by (auto simp: has_key_def delete_keys)

lemma from_dictionary_without_type:
  "\<not> has_key d ''type'' \<Longrightarrow> question_from_dictionary fresh d = Inl (PopMissingKey ''type'')"
  by (simp add: question_from_dictionary_def)

lemma from_dictionary_without_kind:
  "has_key d ''type'' \<Longrightarrow> \<not> has_key d ''kind'' \<Longrightarrow>
   question_from_dictionary fresh d = Inl (PopMissingKey ''kind'')"
  by (simp add: question_from_dictionary_def has_key_delete Let_def)

subsection \<open>The factory and its discriminator\<close>

text \<open>
  Claim C1. A mapping without a \<^verbatim>\<open>type\<close> key should make \<^verbatim>\<open>create_a_question\<close> fail with
  the \<^verbatim>\<open>ValueError\<close> of line 49. On the mapping
  \<^verbatim>\<open>{'kind': 'question', 'prompt': 'p', 'answer': 'a'}\<close> the call fails instead at the
  \<^verbatim>\<open>pop('type')\<close> of line 46, with a \<^verbatim>\<open>KeyError\<close>: the test of line 48 comes after the
  two \<^verbatim>\<open>pop\<close> calls and is never reached on a mapping that lacks the key.
\<close>

theorem create_a_question_without_type_is_KeyError:
  "create_a_question ''u''
     (ADict [(''kind'', JStr ''question''), (''prompt'', JStr ''p''), (''answer'', JStr ''a'')])
     = Inl (PopMissingKey ''type'') \<and>
   exception_class (PopMissingKey ''type'') = Some KeyError"
  by (simp add: create_a_question_def from_dictionary_without_type has_key_def)

text \<open>
  Claim C10. A mapping that has a \<^verbatim>\<open>type\<close> key and no \<^verbatim>\<open>kind\<close> key makes
  \<^verbatim>\<open>create_a_question\<close> fail with a \<^verbatim>\<open>KeyError\<close>, raised by the \<^verbatim>\<open>pop('kind')\<close> of line 47,
  whatever the discriminator names.
\<close>

theorem create_a_question_without_kind:
  assumes "has_key d ''type''" and "\<not> has_key d ''kind''"
  shows "create_a_question fresh (ADict d) = Inl (PopMissingKey ''kind'') \<and>
         exception_class (PopMissingKey ''kind'') = Some KeyError"
  using assms by (simp add: create_a_question_def from_dictionary_without_kind)

theorem create_a_question_without_kind_witness:
  "has_key [(''type'', JStr ''short_answer''), (''prompt'', JStr ''p''),
            (''answer'', JStr ''a'')] ''type'' \<and>
   \<not> has_key [(''type'', JStr ''short_answer''), (''prompt'', JStr ''p''),
              (''answer'', JStr ''a'')] ''kind'' \<and>
   create_a_question ''u''
     (ADict [(''type'', JStr ''short_answer''), (''prompt'', JStr ''p''),
             (''answer'', JStr ''a'')])
     = Inl (PopMissingKey ''kind'')"
  using create_a_question_without_kind
    [of "[(''type'', JStr ''short_answer''), (''prompt'', JStr ''p''),
          (''answer'', JStr ''a'')]" "''u''"]
  by (simp add: has_key_def)

text \<open>
  Claim C5, as stated: every mapping whose \<^verbatim>\<open>type\<close> is present and is none of the four
  known tags makes \<^verbatim>\<open>create_a_question\<close> fail with the unsupported-type error of line 59.
  It fails on \<^verbatim>\<open>{'type': 'unknown_kind', 'prompt': 'p'}\<close>, where the \<^verbatim>\<open>pop('kind')\<close> of line
  47 raises \<^verbatim>\<open>KeyError\<close> first, and on \<^verbatim>\<open>{'kind': 'question', 'type': None}\<close>, where the
  key is present with the value \<^verbatim>\<open>None\<close> and line 49 reports a missing type.
\<close>

theorem unsupported_type_counterexample:
  "create_a_question ''u'' (ADict [(''type'', JStr ''unknown_kind''), (''prompt'', JStr ''p'')])
     = Inl (PopMissingKey ''kind'') \<and>
   exception_class (PopMissingKey ''kind'') = Some KeyError \<and>
   has_key [(''kind'', JStr ''question''), (''type'', JNone)] ''type'' \<and>
   create_a_question ''u'' (ADict [(''kind'', JStr ''question''), (''type'', JNone)])
     = Inl QuestionTypeMissing"
  by (simp add: create_a_question_def question_from_dictionary_def has_key_def dict_get_def)

text \<open>
  Claim C5, amended: every mapping that has a \<^verbatim>\<open>kind\<close> key and a \<^verbatim>\<open>type\<close> key whose value
  is neither \<^verbatim>\<open>None\<close> nor one of the four known tags makes \<^verbatim>\<open>create_a_question\<close> fail with
  the unsupported-type error of line 59, a \<^verbatim>\<open>ValueError\<close> carrying the discriminator.
\<close>

theorem unsupported_type:
  assumes "has_key d ''type''" and "has_key d ''kind''"
    and "dict_get d ''type'' \<noteq> JNone"
    and "dict_get d ''type'' \<notin> {JStr ''multiple_choice'', JStr ''matching'',
           JStr ''short_answer'', JStr ''fill_in_the_blank''}"
  shows "create_a_question fresh (ADict d)
           = Inl (QuestionTypeNotSupported (dict_get d ''type'')) \<and>
         exception_class (QuestionTypeNotSupported (dict_get d ''type'')) = Some ValueError"
  using assms
  by (simp add: create_a_question_def question_from_dictionary_def has_key_delete Let_def)

theorem unsupported_type_witness:
  "has_key [(''kind'', JStr ''question''), (''type'', JStr ''unknown_kind'')] ''type'' \<and>
   has_key [(''kind'', JStr ''question''), (''type'', JStr ''unknown_kind'')] ''kind'' \<and>
   dict_get [(''kind'', JStr ''question''), (''type'', JStr ''unknown_kind'')] ''type''
     = JStr ''unknown_kind'' \<and>
   create_a_question ''u''
     (ADict [(''kind'', JStr ''question''), (''type'', JStr ''unknown_kind'')])
     = Inl (QuestionTypeNotSupported (JStr ''unknown_kind''))"
  using unsupported_type
    [of "[(''kind'', JStr ''question''), (''type'', JStr ''unknown_kind'')]" "''u''"]
  by (simp add: has_key_def dict_get_def)

subsection \<open>Attaching responses\<close>

text \<open>
  Claim C3. When the type tag of the response differs from the type of the question,
  \<^verbatim>\<open>add_response\<close> fails with the invalid-response-type error of line 69 (a
  \<^verbatim>\<open>ValueError\<close>) and the question, its list of responses included, is after the call what
  it was before.
\<close>

theorem add_response_type_mismatch:
  assumes "response_get_type r \<noteq> JStr (get_type q)"
  shows "add_response q r = (Inl InvalidResponseType, q) \<and>
         get_responses (snd (add_response q r)) = get_responses q \<and>
         exception_class InvalidResponseType = Some ValueError"
  using assms by (simp add: add_response_def)

theorem add_response_type_mismatch_witness:
  "response_get_type (Response [(''type'', JStr ''matching'')])
     \<noteq> JStr (get_type \<lparr>qtype = ''short_answer'', object_id = ''u'',
            responses = [Response [(''type'', JStr ''short_answer'')]],
            variant = ShortAnswerQuestion ''p'' ''a''\<rparr>) \<and>
   get_responses (snd (add_response
       \<lparr>qtype = ''short_answer'', object_id = ''u'',
        responses = [Response [(''type'', JStr ''short_answer'')]],
        variant = ShortAnswerQuestion ''p'' ''a''\<rparr>
       (Response [(''type'', JStr ''matching'')])))
     = [Response [(''type'', JStr ''short_answer'')]]"
  using add_response_type_mismatch
    [of "Response [(''type'', JStr ''matching'')]"
        "\<lparr>qtype = ''short_answer'', object_id = ''u'',
          responses = [Response [(''type'', JStr ''short_answer'')]],
          variant = ShortAnswerQuestion ''p'' ''a''\<rparr>"]
  by (simp add: response_get_type_def get_type_def get_responses_def dict_get_def)

subsection \<open>Removing duplicates\<close>

lemma fromkeys_first_occurrences:
  "fromkeys seen xs = seen @ first_occurrences (filter (\<lambda>x. x \<notin> set seen) xs)"
proof (induction xs arbitrary: seen)
  case Nil
  then show ?case by simp
next
  case (Cons k ks)
  have "removeAll k (filter (\<lambda>x. x \<notin> set seen) ks) = filter (\<lambda>x. x \<notin> set (seen @ [k])) ks"
    by (induction ks) auto
  with Cons show ?case by simp
qed

lemma list_fromkeys_first_occurrences: "list_fromkeys xs = first_occurrences xs"
  by (simp add: list_fromkeys_def fromkeys_first_occurrences)

lemma set_first_occurrences: "set (first_occurrences xs) = set xs"
  by (induction xs rule: first_occurrences.induct) auto

lemma distinct_first_occurrences: "distinct (first_occurrences xs)"
  by (induction xs rule: first_occurrences.induct) (auto simp: set_first_occurrences)

lemma first_occurrences_distinct: "distinct xs \<Longrightarrow> first_occurrences xs = xs"
  by (induction xs) auto

subsection \<open>What attaching a response keeps\<close>

lemma add_response_keeps:
  "qtype (snd (add_response q r)) = qtype q"
  "object_id (snd (add_response q r)) = object_id q"
  "variant (snd (add_response q r)) = variant q"
  by (simp_all add: add_response_def split: sum.splits)

lemma add_responses_keeps:
  "qtype (snd (add_responses q rs)) = qtype q \<and>
   object_id (snd (add_responses q rs)) = object_id q \<and>
   variant (snd (add_responses q rs)) = variant q"
proof (induction rs arbitrary: q)
  case Nil
  then show ?case by simp
next
  case (Cons r rs)
  show ?case
  proof (cases "add_response q r")
    case (Pair out q')
    then have "q' = snd (add_response q r)" by simp
    then have k: "qtype q' = qtype q" "object_id q' = object_id q" "variant q' = variant q"
      by (simp_all add: add_response_keeps)
    show ?thesis
    proof (cases out)
      case (Inl e)
      with Pair k show ?thesis by simp
    next
      case (Inr u)
      with Pair k Cons.IH [of q'] show ?thesis by simp
    qed
  qed
qed

lemma initialize_responses_keeps:
  "qtype (snd (initialize_responses q rs)) = qtype q \<and>
   object_id (snd (initialize_responses q rs)) = object_id q \<and>
   variant (snd (initialize_responses q rs)) = variant q"
  by (simp add: initialize_responses_def add_responses_keeps split: option.splits sum.splits)

lemma MultipleChoiceQuestion_init_variant:
  assumes "MultipleChoiceQuestion_init p cs a rs oid fresh = Inr q"
  shows "variant q = MultipleChoiceQuestion p (list_fromkeys cs) a \<and> qtype q = ''multiple_choice'' \<and> a \<in> set cs"
proof -
  let ?self = "Question_init oid fresh ''multiple_choice'' (MultipleChoiceQuestion p (list_fromkeys cs) a)"
  obtain out q' where ir: "initialize_responses ?self rs = (out, q')"
    by (cases "initialize_responses ?self rs")
  with assms have "q = q'" and "a \<in> set cs"
    by (auto simp: MultipleChoiceQuestion_init_def Let_def split: sum.splits if_splits)
  moreover from ir have "q' = snd (initialize_responses ?self rs)" by simp
  ultimately show ?thesis
    by (simp add: initialize_responses_keeps Question_init_def)
qed

lemma MatchingQuestion_init_variant:
  assumes "MatchingQuestion_init p ls rs a resps oid fresh = Inr q"
  shows "variant q = MatchingQuestion p (list_fromkeys ls) (list_fromkeys rs) a \<and> qtype q = ''matching'' \<and>
     (\<forall>v \<in> set (map snd a). v \<in> set (list_fromkeys ls) \<and> v \<in> set (list_fromkeys rs))"
proof -
  let ?self = "Question_init oid fresh ''matching'' (MatchingQuestion p (list_fromkeys ls) (list_fromkeys rs) a)"
  obtain out q' where ir: "initialize_responses ?self resps = (out, q')"
    by (cases "initialize_responses ?self resps")
  with assms have "q = q'" and "\<forall>v \<in> set (map snd a). v \<in> set (list_fromkeys ls) \<and> v \<in> set (list_fromkeys rs)"
    by (auto simp: MatchingQuestion_init_def Let_def Question_init_def list_all_iff split: sum.splits if_splits)
  moreover from ir have "q' = snd (initialize_responses ?self resps)" by simp
  ultimately show ?thesis
    by (simp add: initialize_responses_keeps Question_init_def)
qed

text \<open>
  Claim C8. The list of choices a constructor stores (\<^verbatim>\<open>choices\<close> of a multiple choice
  question, \<^verbatim>\<open>left_choices\<close> and \<^verbatim>\<open>right_choices\<close> of a matching question) is the list
  it was given with the duplicates removed, every element staying at its first occurrence;
  \<^verbatim>\<open>["a", "b", "a", "c"]\<close> is stored as \<^verbatim>\<open>["a", "b", "c"]\<close>.
\<close>

theorem choices_deduplicated:
  "(MultipleChoiceQuestion_init p cs a rs oid fresh = Inr q \<longrightarrow>
      choices (variant q) = first_occurrences cs) \<and>
   (MatchingQuestion_init p' ls rs' a' resps oid' fresh' = Inr q' \<longrightarrow>
      left_choices (variant q') = first_occurrences ls \<and>
      right_choices (variant q') = first_occurrences rs') \<and>
   list_fromkeys [''a'', ''b'', ''a'', ''c''] = [''a'', ''b'', ''c'']"
  by (auto dest!: MultipleChoiceQuestion_init_variant MatchingQuestion_init_variant
       simp: list_fromkeys_first_occurrences)

theorem choices_deduplicated_witness:
  "MultipleChoiceQuestion_init ''p'' [''a'', ''b'', ''a'', ''c''] ''b'' None None ''u''
     = Inr \<lparr>qtype = ''multiple_choice'', object_id = ''u'', responses = [],
            variant = MultipleChoiceQuestion ''p'' [''a'', ''b'', ''c''] ''b''\<rparr> \<and>
   MatchingQuestion_init ''p'' [''a'', ''a'', ''b''] [''b'', ''a'', ''b''] [(''k'', ''a'')] None None ''u''
     = Inr \<lparr>qtype = ''matching'', object_id = ''u'', responses = [],
            variant = MatchingQuestion ''p'' [''a'', ''b''] [''b'', ''a''] [(''k'', ''a'')]\<rparr> \<and>
   first_occurrences [''a'', ''b'', ''a'', ''c''] = [''a'', ''b'', ''c''] \<and>
   first_occurrences [''a'', ''a'', ''b''] = [''a'', ''b''] \<and> 
   first_occurrences [''b'', ''a'', ''b''] = [''b'', ''a'']"
  using choices_deduplicated [of "''p''" "[''a'', ''b'', ''a'', ''c'']" "''b''" None None "''u''"
       "\<lparr>qtype = ''multiple_choice'', object_id = ''u'', responses = [],
            variant = MultipleChoiceQuestion ''p'' [''a'', ''b'', ''c''] ''b''\<rparr>"
       "''p''" "[''a'', ''a'', ''b'']" "[''b'', ''a'', ''b'']" "[(''k'', ''a'')]" None None "''u''"
       "\<lparr>qtype = ''matching'', object_id = ''u'', responses = [],
            variant = MatchingQuestion ''p'' [''a'', ''b''] [''b'', ''a''] [(''k'', ''a'')]\<rparr>"]
  by (simp add: MultipleChoiceQuestion_init_def MatchingQuestion_init_def Question_init_def
       initialize_responses_def list_fromkeys_def)


subsection \<open>The multiple choice question\<close>

text \<open>
  Claim C6. For a multiple choice question and a response of type \<^verbatim>\<open>multiple_choice\<close>:
  when the response carries a \<^verbatim>\<open>choice\<close> key whose value is one of the question's choices,
  \<^verbatim>\<open>add_response\<close> succeeds and the response is appended last, so the list of responses is
  one longer; otherwise \<^verbatim>\<open>add_response\<close> fails with one of the two \<^verbatim>\<open>ValueError\<close>s of
  \<^verbatim>\<open>validate_response\<close> and the list of responses is unchanged.
\<close>

theorem multiple_choice_add_response:
  assumes "variant q = MultipleChoiceQuestion p cs a"
    and "get_type q = ''multiple_choice''"
    and "response_get_type r = JStr ''multiple_choice''"
  shows "if has_key (response_json_data r) ''choice'' \<and>
            dict_get (response_json_data r) ''choice'' \<in> set (map JStr cs)
         then add_response q r = (Inr (), q\<lparr>responses := responses q @ [r]\<rparr>) \<and>
              get_responses (snd (add_response q r)) = get_responses q @ [r] \<and>
              length (get_responses (snd (add_response q r))) = length (get_responses q) + 1
         else (add_response q r = (Inl ChoiceKeyMissing, q) \<or>
               add_response q r = (Inl ChoiceNotInChoices, q)) \<and>
              exception_class ChoiceKeyMissing = Some ValueError \<and>
              exception_class ChoiceNotInChoices = Some ValueError \<and>
              length (get_responses (snd (add_response q r))) = length (get_responses q)"
  using assms by (auto simp: add_response_def get_responses_def Let_def)

theorem multiple_choice_add_response_witness:
  "MultipleChoiceQuestion_init ''2+2?'' [''3'', ''4'', ''5''] ''4'' None None ''u''
     = Inr \<lparr>qtype = ''multiple_choice'', object_id = ''u'', responses = [],
            variant = MultipleChoiceQuestion ''2+2?'' [''3'', ''4'', ''5''] ''4''\<rparr> \<and>
   add_response
     \<lparr>qtype = ''multiple_choice'', object_id = ''u'', responses = [],
      variant = MultipleChoiceQuestion ''2+2?'' [''3'', ''4'', ''5''] ''4''\<rparr>
     (Response [(''type'', JStr ''multiple_choice''), (''choice'', JStr ''4'')])
     = (Inr (),
        \<lparr>qtype = ''multiple_choice'', object_id = ''u'',
         responses = [Response [(''type'', JStr ''multiple_choice''), (''choice'', JStr ''4'')]],
         variant = MultipleChoiceQuestion ''2+2?'' [''3'', ''4'', ''5''] ''4''\<rparr>) \<and>
   add_response
     \<lparr>qtype = ''multiple_choice'', object_id = ''u'',
      responses = [Response [(''type'', JStr ''multiple_choice''), (''choice'', JStr ''4'')]],
      variant = MultipleChoiceQuestion ''2+2?'' [''3'', ''4'', ''5''] ''4''\<rparr>
     (Response [(''type'', JStr ''multiple_choice''), (''choice'', JStr ''9'')])
     = (Inl ChoiceNotInChoices,
        \<lparr>qtype = ''multiple_choice'', object_id = ''u'',
         responses = [Response [(''type'', JStr ''multiple_choice''), (''choice'', JStr ''4'')]],
         variant = MultipleChoiceQuestion ''2+2?'' [''3'', ''4'', ''5''] ''4''\<rparr>)"
  using
    multiple_choice_add_response [of "\<lparr>qtype = ''multiple_choice'', object_id = ''u'', responses = [],
             variant = MultipleChoiceQuestion ''2+2?'' [''3'', ''4'', ''5''] ''4''\<rparr>"
           "''2+2?''" "[''3'', ''4'', ''5'']" "''4''"
           "Response [(''type'', JStr ''multiple_choice''), (''choice'', JStr ''4'')]"]
    multiple_choice_add_response [of "\<lparr>qtype = ''multiple_choice'', object_id = ''u'',
             responses = [Response [(''type'', JStr ''multiple_choice''), (''choice'', JStr ''4'')]],
             variant = MultipleChoiceQuestion ''2+2?'' [''3'', ''4'', ''5''] ''4''\<rparr>"
           "''2+2?''" "[''3'', ''4'', ''5'']" "''4''"
           "Response [(''type'', JStr ''multiple_choice''), (''choice'', JStr ''9'')]"]
  by (simp add: MultipleChoiceQuestion_init_def Question_init_def initialize_responses_def
        list_fromkeys_def get_type_def response_get_type_def dict_get_def has_key_def
        add_response_def)

text \<open>
  The constructor attaches the responses before it checks the answer, so with an answer
  outside the choices it fails either there or, earlier, while attaching.
\<close>

lemma MultipleChoiceQuestion_init_fails:
  assumes "a \<notin> set cs"
  shows "MultipleChoiceQuestion_init p cs a rs oid fresh = Inl AnswerNotInChoices \<or>
         (\<exists>e. fst (initialize_responses (Question_init oid fresh ''multiple_choice''
                  (MultipleChoiceQuestion p (list_fromkeys cs) a)) rs) = Inl e \<and>
              MultipleChoiceQuestion_init p cs a rs oid fresh = Inl e)"
  using assms
  by (cases "initialize_responses (Question_init oid fresh ''multiple_choice''
                  (MultipleChoiceQuestion p (list_fromkeys cs) a)) rs")
     (auto simp: MultipleChoiceQuestion_init_def Let_def split: sum.splits)

text \<open>
  Claim C9. A multiple choice question whose answer is not among the choices cannot be
  constructed: with a prompt, choices and an answer the constructor fails with the
  \<^verbatim>\<open>ValueError\<close> of line 112, and with responses passed as well it fails with that error or
  with the one raised while the responses are attached. Construction succeeds only when
  the answer is one of the choices given.
\<close>

theorem multiple_choice_answer_checked:
  "(a \<notin> set cs \<longrightarrow>
      MultipleChoiceQuestion_init p cs a None oid fresh = Inl AnswerNotInChoices \<and>
      (\<exists>e. MultipleChoiceQuestion_init p cs a rs oid fresh = Inl e \<and>
           (e = AnswerNotInChoices \<or>
            fst (initialize_responses (Question_init oid fresh ''multiple_choice''
                  (MultipleChoiceQuestion p (list_fromkeys cs) a)) rs) = Inl e))) \<and>
   (MultipleChoiceQuestion_init p cs a rs oid fresh = Inr q \<longrightarrow> a \<in> set cs) \<and>
   exception_class AnswerNotInChoices = Some ValueError"
proof (intro conjI impI)
  assume "a \<notin> set cs"
  then show "MultipleChoiceQuestion_init p cs a None oid fresh = Inl AnswerNotInChoices"
    by (simp add: MultipleChoiceQuestion_init_def initialize_responses_def)
  from \<open>a \<notin> set cs\<close> MultipleChoiceQuestion_init_fails [of a cs p rs oid fresh]
  show "\<exists>e. MultipleChoiceQuestion_init p cs a rs oid fresh = Inl e \<and>
           (e = AnswerNotInChoices \<or>
            fst (initialize_responses (Question_init oid fresh ''multiple_choice''
                  (MultipleChoiceQuestion p (list_fromkeys cs) a)) rs) = Inl e)"
    by auto
next
  assume "MultipleChoiceQuestion_init p cs a rs oid fresh = Inr q"
  then show "a \<in> set cs" by (simp add: MultipleChoiceQuestion_init_variant)
next
  show "exception_class AnswerNotInChoices = Some ValueError" by simp
qed

theorem multiple_choice_answer_checked_witness:
  "''c'' \<notin> set [''a'', ''b''] \<and>
   MultipleChoiceQuestion_init ''p'' [''a'', ''b''] ''c'' None None ''u'' = Inl AnswerNotInChoices \<and>
   MultipleChoiceQuestion_init ''p'' [''a'', ''b''] ''b'' None None ''u''
     = Inr \<lparr>qtype = ''multiple_choice'', object_id = ''u'', responses = [],
            variant = MultipleChoiceQuestion ''p'' [''a'', ''b''] ''b''\<rparr> \<and>
   ''b'' \<in> set [''a'', ''b'']"
  using multiple_choice_answer_checked [of "''c''" "[''a'', ''b'']" "''p''" None "''u''" None]
    multiple_choice_answer_checked [of "''b''" "[''a'', ''b'']" "''p''" None "''u''" None
           "\<lparr>qtype = ''multiple_choice'', object_id = ''u'', responses = [],
             variant = MultipleChoiceQuestion ''p'' [''a'', ''b''] ''b''\<rparr>"]
  by (simp add: MultipleChoiceQuestion_init_def Question_init_def initialize_responses_def
        list_fromkeys_def)


subsection \<open>The matching question\<close>

lemma validate_response_answer_irrelevant:
  "validate_response (MatchingQuestion p ls rs a) r = validate_response (MatchingQuestion p ls rs a') r"
  by simp

lemma add_response_answer_irrelevant:
  assumes "variant q = MatchingQuestion p ls rs a"
  shows "add_response (q\<lparr>variant := MatchingQuestion p ls rs a'\<rparr>) r =
         (fst (add_response q r), (snd (add_response q r))\<lparr>variant := MatchingQuestion p ls rs a'\<rparr>)"
  using assms
  by (simp add: add_response_def get_type_def validate_response_answer_irrelevant [of p ls rs a' r a]
        split: sum.splits)

lemma add_responses_answer_irrelevant:
  assumes "variant q = MatchingQuestion p ls rs a"
  shows "add_responses (q\<lparr>variant := MatchingQuestion p ls rs a'\<rparr>) xs =
         (fst (add_responses q xs), (snd (add_responses q xs))\<lparr>variant := MatchingQuestion p ls rs a'\<rparr>)"
  using assms
proof (induction xs arbitrary: q)
  case Nil
  then show ?case by simp
next
  case (Cons r xs)
  obtain out q' where ar: "add_response q r = (out, q')" by (cases "add_response q r")
  then have "q' = snd (add_response q r)" by simp
  with Cons.prems have v: "variant q' = MatchingQuestion p ls rs a"
    by (simp add: add_response_keeps)
  from ar add_response_answer_irrelevant [OF Cons.prems, of a' r]
  have ar': "add_response (q\<lparr>variant := MatchingQuestion p ls rs a'\<rparr>) r =
             (out, q'\<lparr>variant := MatchingQuestion p ls rs a'\<rparr>)" by simp
  show ?case
  proof (cases out)
    case (Inl e)
    with ar ar' show ?thesis by simp
  next
    case (Inr u)
    with ar ar' Cons.IH [OF v] show ?thesis by simp
  qed
qed

lemma initialize_responses_answer_irrelevant:
  assumes "variant q = MatchingQuestion p ls rs a"
  shows "fst (initialize_responses (q\<lparr>variant := MatchingQuestion p ls rs a'\<rparr>) xs) =
         fst (initialize_responses q xs)"
  using add_responses_answer_irrelevant [OF assms]
  by (simp add: initialize_responses_def split: option.splits sum.splits)

lemma MatchingQuestion_init_succeeds:
  "(\<exists>q. MatchingQuestion_init p ls rs a resps oid fresh = Inr q) =
   ((\<forall>v \<in> set (map snd a). v \<in> set ls \<and> v \<in> set rs) \<and>
    (\<exists>u. fst (initialize_responses (Question_init oid fresh ''matching''
        (MatchingQuestion p (list_fromkeys ls) (list_fromkeys rs) a)) resps) = Inr u))"
  by (cases "initialize_responses (Question_init oid fresh ''matching''
        (MatchingQuestion p (list_fromkeys ls) (list_fromkeys rs) a)) resps")
     (auto simp: MatchingQuestion_init_def Let_def Question_init_def list_all_iff
         list_fromkeys_first_occurrences set_first_occurrences split: sum.splits)

lemma MatchingQuestion_init_keys_irrelevant:
  assumes "map snd a = map snd a'"
  shows "(\<exists>q. MatchingQuestion_init p ls rs a resps oid fresh = Inr q) =
         (\<exists>q. MatchingQuestion_init p ls rs a' resps oid fresh = Inr q)"
proof -
  let ?self = "Question_init oid fresh ''matching''
        (MatchingQuestion p (list_fromkeys ls) (list_fromkeys rs) a)"
  have v: "variant ?self = MatchingQuestion p (list_fromkeys ls) (list_fromkeys rs) a"
    by (simp add: Question_init_def)
  have "?self\<lparr>variant := MatchingQuestion p (list_fromkeys ls) (list_fromkeys rs) a'\<rparr> =
        Question_init oid fresh ''matching''
          (MatchingQuestion p (list_fromkeys ls) (list_fromkeys rs) a')"
    by (simp add: Question_init_def)
  with initialize_responses_answer_irrelevant [OF v, of a' resps] assms
  show ?thesis by (simp add: MatchingQuestion_init_succeeds)
qed

text \<open>
  Claim C4. A matching question is constructed only if every value of its answer mapping
  is among the left choices and among the right choices; an answer with a value outside
  the right choices makes the constructor fail with one of the two \<^verbatim>\<open>ValueError\<close>s of lines
  149 and 151; and the keys of the answer are not looked at: two answers with the same
  values in the same order are accepted or refused together.
\<close>

theorem matching_answer_values_checked:
  "(MatchingQuestion_init p ls rs a resps oid fresh = Inr q \<longrightarrow>
      (\<forall>v \<in> set (map snd a). v \<in> set ls \<and> v \<in> set rs)) \<and>
   ((\<exists>v \<in> set (map snd a). v \<notin> set rs) \<longrightarrow>
      (MatchingQuestion_init p ls rs a resps oid fresh = Inl AnswerNotInLeftChoices \<or>
       MatchingQuestion_init p ls rs a resps oid fresh = Inl AnswerNotInRightChoices)) \<and>
   exception_class AnswerNotInLeftChoices = Some ValueError \<and>
   exception_class AnswerNotInRightChoices = Some ValueError \<and>
   (map snd a = map snd a' \<longrightarrow>
      (\<exists>q. MatchingQuestion_init p ls rs a resps oid fresh = Inr q) =
      (\<exists>q. MatchingQuestion_init p ls rs a' resps oid fresh = Inr q))"
proof (intro conjI impI)
  assume "MatchingQuestion_init p ls rs a resps oid fresh = Inr q"
  then have "\<exists>q. MatchingQuestion_init p ls rs a resps oid fresh = Inr q" by blast
  with MatchingQuestion_init_succeeds [of p ls rs a resps oid fresh]
  show "\<forall>v \<in> set (map snd a). v \<in> set ls \<and> v \<in> set rs" by blast
next
  assume "\<exists>v \<in> set (map snd a). v \<notin> set rs"
  then show "MatchingQuestion_init p ls rs a resps oid fresh = Inl AnswerNotInLeftChoices \<or>
       MatchingQuestion_init p ls rs a resps oid fresh = Inl AnswerNotInRightChoices"
    by (auto simp: MatchingQuestion_init_def Let_def Question_init_def list_all_iff
         list_fromkeys_first_occurrences set_first_occurrences)
next
  assume "map snd a = map snd a'"
  then show "(\<exists>q. MatchingQuestion_init p ls rs a resps oid fresh = Inr q) =
      (\<exists>q. MatchingQuestion_init p ls rs a' resps oid fresh = Inr q)"
    by (rule MatchingQuestion_init_keys_irrelevant)
qed simp_all

theorem matching_answer_values_checked_witness:
  "MatchingQuestion_init ''p'' [''a'', ''b''] [''a'', ''b''] [(''a'', ''b'')] None None ''u''
     = Inr \<lparr>qtype = ''matching'', object_id = ''u'', responses = [],
            variant = MatchingQuestion ''p'' [''a'', ''b''] [''a'', ''b''] [(''a'', ''b'')]\<rparr> \<and>
   MatchingQuestion_init ''p'' [''a'', ''b''] [''a'', ''b''] [(''not a left choice'', ''b'')] None None ''u''
     = Inr \<lparr>qtype = ''matching'', object_id = ''u'', responses = [],
            variant = MatchingQuestion ''p'' [''a'', ''b''] [''a'', ''b'']
              [(''not a left choice'', ''b'')]\<rparr> \<and>
   MatchingQuestion_init ''p'' [''a'', ''b''] [''x'', ''y''] [(''a'', ''b'')] None None ''u''
     = Inl AnswerNotInRightChoices \<and>
   MatchingQuestion_init ''p'' [''a'', ''b''] [''x'', ''y''] [(''a'', ''x'')] None None ''u''
     = Inl AnswerNotInLeftChoices"
  using
    matching_answer_values_checked [of "''p''" "[''a'', ''b'']" "[''a'', ''b'']" "[(''a'', ''b'')]" None None "''u''"
           "\<lparr>qtype = ''matching'', object_id = ''u'', responses = [],
             variant = MatchingQuestion ''p'' [''a'', ''b''] [''a'', ''b''] [(''a'', ''b'')]\<rparr>"
           "[(''not a left choice'', ''b'')]"]
    matching_answer_values_checked [of "''p''" "[''a'', ''b'']" "[''x'', ''y'']" "[(''a'', ''b'')]" None None "''u''"]
  by (simp add: MatchingQuestion_init_def Question_init_def initialize_responses_def
        list_fromkeys_def)

text \<open>
  Claim C7, as stated: \<^verbatim>\<open>MatchingQuestion.validate_response\<close> accepts a response exactly
  when its \<^verbatim>\<open>answer_mapping\<close> has the left choices as its key sequence and values that are
  \<^verbatim>\<open>None\<close> or right choices, and fails with a \<^verbatim>\<open>ValueError\<close> in every other case. On a
  response whose \<^verbatim>\<open>answer_mapping\<close> is \<^verbatim>\<open>None\<close> the call of \<^verbatim>\<open>.keys()\<close> at line 158 raises
  \<^verbatim>\<open>AttributeError\<close>.
\<close>

theorem matching_validate_response_counterexample:
  "validate_response (MatchingQuestion ''p'' [''a'', ''b''] [''a'', ''b''] [(''a'', ''b'')])
     (Response [(''type'', JStr ''matching''), (''answer_mapping'', JNone)])
     = Inl (NoSuchAttribute ''keys'') \<and>
   exception_class (NoSuchAttribute ''keys'') = Some AttributeError"
  by (simp add: has_key_def dict_get_def)

text \<open>
  Claim C7, amended: \<^verbatim>\<open>MatchingQuestion.validate_response\<close> accepts a response exactly
  when it carries an \<^verbatim>\<open>answer_mapping\<close> that is a mapping, whose key sequence equals the
  left choices and whose values are each \<^verbatim>\<open>None\<close> or a right choice; and for a response
  whose \<^verbatim>\<open>answer_mapping\<close>, if it carries one, is a mapping, every other case fails with one
  of the \<^verbatim>\<open>ValueError\<close>s of lines 157, 162 and 165.
\<close>

theorem matching_validate_response:
  "(validate_response (MatchingQuestion p ls rs a) r = Inr ()) =
     (\<exists>m. has_key (response_json_data r) ''answer_mapping'' \<and>
          dict_get (response_json_data r) ''answer_mapping'' = JDict m \<and>
          map fst m = ls \<and>
          (\<forall>v \<in> set (map snd m). v = JNone \<or> v \<in> set (map JStr rs))) \<and>
   ((has_key (response_json_data r) ''answer_mapping'' \<longrightarrow>
       (\<exists>m. dict_get (response_json_data r) ''answer_mapping'' = JDict m)) \<longrightarrow>
    validate_response (MatchingQuestion p ls rs a) r \<noteq> Inr () \<longrightarrow>
      (\<exists>e. validate_response (MatchingQuestion p ls rs a) r = Inl e \<and>
           e \<in> {AnswerMappingMissing, LeftChoicesDiffer, RightChoicesDiffer} \<and>
           exception_class e = Some ValueError))"
  by (auto simp: Let_def list_all_iff split: json.splits)

theorem matching_validate_response_witness:
  "validate_response (MatchingQuestion ''p'' [''a'', ''b''] [''x'', ''y''] [])
     (Response [(''type'', JStr ''matching''),
                (''answer_mapping'', JDict [(''a'', JStr ''y''), (''b'', JNone)])]) = Inr () \<and>
   validate_response (MatchingQuestion ''p'' [''a'', ''b''] [''x'', ''y''] [])
     (Response [(''type'', JStr ''matching''),
                (''answer_mapping'', JDict [(''b'', JStr ''y''), (''a'', JNone)])])
     = Inl LeftChoicesDiffer \<and>
   validate_response (MatchingQuestion ''p'' [''a'', ''b''] [''x'', ''y''] [])
     (Response [(''type'', JStr ''matching''),
                (''answer_mapping'', JDict [(''a'', JStr ''z''), (''b'', JNone)])])
     = Inl RightChoicesDiffer \<and>
   validate_response (MatchingQuestion ''p'' [''a'', ''b''] [''x'', ''y''] [])
     (Response [(''type'', JStr ''matching'')]) = Inl AnswerMappingMissing"
  using
    matching_validate_response [of "''p''" "[''a'', ''b'']" "[''x'', ''y'']" "[]"
           "Response [(''type'', JStr ''matching''),
                (''answer_mapping'', JDict [(''a'', JStr ''y''), (''b'', JNone)])]"]
    matching_validate_response [of "''p''" "[''a'', ''b'']" "[''x'', ''y'']" "[]"
           "Response [(''type'', JStr ''matching''),
                (''answer_mapping'', JDict [(''b'', JStr ''y''), (''a'', JNone)])]"]
  by (simp add: has_key_def dict_get_def)

subsection \<open>Constructed questions are well formed\<close>

lemma accepted_cong:
  "qtype q' = qtype q \<Longrightarrow> variant q' = variant q \<Longrightarrow> accepted q' = accepted q"
  by (rule ext) (simp add: accepted_def get_type_def)

lemma add_response_accepted:
  "accepted q r \<Longrightarrow> add_response q r = (Inr (), q\<lparr>responses := responses q @ [r]\<rparr>)"
  by (simp add: accepted_def add_response_def)

lemma add_response_Inr:
  assumes "add_response q r = (Inr u, q')"
  shows "accepted q r \<and> q' = q\<lparr>responses := responses q @ [r]\<rparr>"
  using assms by (auto simp: accepted_def add_response_def split: if_splits sum.splits)

lemma add_responses_accepted:
  "list_all (accepted q) rs \<Longrightarrow>
   add_responses q rs = (Inr (), q\<lparr>responses := responses q @ rs\<rparr>)"
proof (induction rs arbitrary: q)
  case Nil
  then show ?case by simp
next
  case (Cons r rs)
  let ?q' = "q\<lparr>responses := responses q @ [r]\<rparr>"
  from Cons.prems have "accepted q r" and "list_all (accepted q) rs" by simp_all
  moreover have "accepted ?q' = accepted q" by (rule accepted_cong) simp_all
  ultimately have "add_response q r = (Inr (), ?q')" and "list_all (accepted ?q') rs"
    by (simp_all add: add_response_accepted)
  with Cons.IH [of ?q'] show ?case by simp
qed

lemma add_responses_Inr:
  "add_responses q rs = (Inr u, q') \<Longrightarrow>
   list_all (accepted q) rs \<and> q' = q\<lparr>responses := responses q @ rs\<rparr>"
proof (induction rs arbitrary: q)
  case Nil
  then show ?case by simp
next
  case (Cons r rs)
  obtain out q1 where ar: "add_response q r = (out, q1)" by (cases "add_response q r")
  with Cons.prems obtain u1 where out: "out = Inr u1" and rest: "add_responses q1 rs = (Inr u, q')"
    by (cases out) auto
  from ar out add_response_Inr have a: "accepted q r" and q1: "q1 = q\<lparr>responses := responses q @ [r]\<rparr>"
    by blast+
  have "accepted q1 = accepted q" unfolding q1 by (rule accepted_cong) simp_all
  with Cons.IH [OF rest] a q1 show ?case by simp
qed

lemma initialize_responses_Inr:
  assumes "initialize_responses q rs = (Inr u, q')"
  shows "\<exists>xs. list_all (accepted q) xs \<and> q' = q\<lparr>responses := responses q @ xs\<rparr>"
proof (cases rs)
  case None
  with assms have "q' = q\<lparr>responses := responses q @ []\<rparr>" by (simp add: initialize_responses_def)
  then show ?thesis by (intro exI [of _ "[]"]) simp
next
  case (Some xs)
  show ?thesis
  proof (cases "length xs > 0")
    case False
    with Some assms have "q' = q\<lparr>responses := responses q @ []\<rparr>"
      by (simp add: initialize_responses_def)
    then show ?thesis by (intro exI [of _ "[]"]) simp
  next
    case True
    with Some assms obtain objs where "add_responses q objs = (Inr u, q')"
      by (auto simp: initialize_responses_def split: sum.splits)
    then show ?thesis using add_responses_Inr by blast
  qed
qed

lemma well_formed_responses:
  assumes "list_all (accepted q) xs" and "responses q = []"
    and "well_formed q"
  shows "well_formed (q\<lparr>responses := responses q @ xs\<rparr>)"
proof -
  have "accepted (q\<lparr>responses := responses q @ xs\<rparr>) = accepted q"
    by (rule accepted_cong) simp_all
  with assms show ?thesis by (simp add: well_formed_def split: variant.splits)
qed

lemma well_formed_add_response:
  assumes "well_formed q" and "add_response q r = (Inr u, q')"
  shows "well_formed q'"
proof -
  from add_response_Inr [OF assms(2)]
  have a: "accepted q r" and q': "q' = q\<lparr>responses := responses q @ [r]\<rparr>" by simp_all
  have "accepted q' = accepted q" unfolding q' by (rule accepted_cong) simp_all
  with assms(1) a show ?thesis by (simp add: well_formed_def q' split: variant.splits)
qed


lemma well_formed_MultipleChoiceQuestion_init:
  assumes "MultipleChoiceQuestion_init p cs a rs oid fresh = Inr q"
  shows "well_formed q"
proof -
  let ?self = "Question_init oid fresh ''multiple_choice''
                 (MultipleChoiceQuestion p (list_fromkeys cs) a)"
  obtain out q' where ir: "initialize_responses ?self rs = (out, q')"
    by (cases "initialize_responses ?self rs")
  with assms obtain u where "out = Inr u" and "q = q'" and a: "a \<in> set cs"
    by (cases out) (auto simp: MultipleChoiceQuestion_init_def Let_def split: if_splits)
  with ir initialize_responses_Inr obtain xs
    where xs: "list_all (accepted ?self) xs" and q: "q = ?self\<lparr>responses := responses ?self @ xs\<rparr>"
    by blast
  from a have "well_formed ?self"
    by (simp add: well_formed_def Question_init_def list_fromkeys_first_occurrences
          distinct_first_occurrences set_first_occurrences)
  moreover have "responses ?self = []" by (simp add: Question_init_def)
  ultimately show ?thesis unfolding q using xs by (intro well_formed_responses)
qed

lemma well_formed_MatchingQuestion_init:
  assumes "MatchingQuestion_init p ls rs a resps oid fresh = Inr q"
  shows "well_formed q"
proof -
  let ?self = "Question_init oid fresh ''matching''
                 (MatchingQuestion p (list_fromkeys ls) (list_fromkeys rs) a)"
  obtain out q' where ir: "initialize_responses ?self resps = (out, q')"
    by (cases "initialize_responses ?self resps")
  with assms obtain u where "out = Inr u" and "q = q'"
    and a: "list_all (\<lambda>v. v \<in> set (list_fromkeys ls) \<and> v \<in> set (list_fromkeys rs)) (map snd a)"
    by (cases out)
       (auto simp: MatchingQuestion_init_def Let_def Question_init_def list_all_iff
          split: if_splits)
  with ir initialize_responses_Inr obtain xs
    where xs: "list_all (accepted ?self) xs" and q: "q = ?self\<lparr>responses := responses ?self @ xs\<rparr>"
    by blast
  from a have "well_formed ?self"
    by (simp add: well_formed_def Question_init_def list_fromkeys_first_occurrences
          distinct_first_occurrences)
  moreover have "responses ?self = []" by (simp add: Question_init_def)
  ultimately show ?thesis unfolding q using xs by (intro well_formed_responses)
qed

lemma well_formed_ShortAnswerQuestion_init:
  assumes "ShortAnswerQuestion_init p a rs oid fresh = Inr q"
  shows "well_formed q"
proof -
  let ?self = "Question_init oid fresh ''short_answer'' (ShortAnswerQuestion p a)"
  obtain out q' where ir: "initialize_responses ?self rs = (out, q')"
    by (cases "initialize_responses ?self rs")
  with assms obtain u where "out = Inr u" and "q = q'"
    by (cases out) (auto simp: ShortAnswerQuestion_init_def Let_def)
  with ir initialize_responses_Inr obtain xs
    where xs: "list_all (accepted ?self) xs" and q: "q = ?self\<lparr>responses := responses ?self @ xs\<rparr>"
    by blast
  have "well_formed ?self" by (simp add: well_formed_def Question_init_def)
  moreover have "responses ?self = []" by (simp add: Question_init_def)
  ultimately show ?thesis unfolding q using xs by (intro well_formed_responses)
qed

lemma well_formed_FillInTheBlankQuestion_init:
  assumes "FillInTheBlankQuestion_init b af a rs oid fresh = Inr q"
  shows "well_formed q"
proof -
  let ?self = "Question_init oid fresh ''fill_in_the_blank'' (FillInTheBlankQuestion b af a)"
  obtain out q' where ir: "initialize_responses ?self rs = (out, q')"
    by (cases "initialize_responses ?self rs")
  with assms obtain u where "out = Inr u" and "q = q'"
    by (cases out) (auto simp: FillInTheBlankQuestion_init_def Let_def)
  with ir initialize_responses_Inr obtain xs
    where xs: "list_all (accepted ?self) xs" and q: "q = ?self\<lparr>responses := responses ?self @ xs\<rparr>"
    by blast
  have "well_formed ?self" by (simp add: well_formed_def Question_init_def)
  moreover have "responses ?self = []" by (simp add: Question_init_def)
  ultimately show ?thesis unfolding q using xs by (intro well_formed_responses)
qed

lemma constructed_well_formed: "constructed q \<Longrightarrow> well_formed q"
proof (induction rule: constructed.induct)
  case (multiple_choice p cs a rs oid fresh q)
  then show ?case by (rule well_formed_MultipleChoiceQuestion_init)
next
  case (matching p ls rs a resps oid fresh q)
  then show ?case by (rule well_formed_MatchingQuestion_init)
next
  case (short_answer p a rs oid fresh q)
  then show ?case by (rule well_formed_ShortAnswerQuestion_init)
next
  case (fill_in_the_blank b af a rs oid fresh q)
  then show ?case by (rule well_formed_FillInTheBlankQuestion_init)
next
  case (response_added q r q')
  then show ?case by (auto intro: well_formed_add_response)
qed

subsection \<open>Reading a serialised question back\<close>

lemma those_as_str: "those (map (as_str \<circ> JStr) xs) = Some xs"
  by (induction xs) simp_all

lemma those_as_str_items:
  "those (map ((\<lambda>(k, v). map_option (Pair k) (as_str v)) \<circ> (\<lambda>(k, v). (k, JStr v))) a) = Some a"
  by (induction a) auto

lemma as_str_list_JStr: "as_str_list (JList (map JStr xs)) = Some xs"
  by (simp add: those_as_str)

lemma as_str_dict_JStr: "as_str_dict (JDict (map (\<lambda>(k, v). (k, JStr v)) a)) = Some a"
  by (simp add: those_as_str_items)

lemma as_responses_json:
  "as_responses (responses_json q) =
     Some (Some (map (\<lambda>r. RawResponse (response_json_data r)) (responses q)))"
proof -
  have "those (map as_response_arg (map (\<lambda>r. JDict (response_json_data r)) xs)) =
        Some (map (\<lambda>r. RawResponse (response_json_data r)) xs)" for xs
    by (induction xs) simp_all
  then show ?thesis by (simp add: responses_json_def)
qed

lemma create_responses_accepted:
  "list_all (accepted q) xs \<Longrightarrow>
   create_responses (map (\<lambda>r. RawResponse (response_json_data r)) xs) = Inr xs"
  by (induction xs)
     (auto simp: accepted_def response_get_type_def create_a_response_def)

lemma initialize_responses_read_back:
  assumes "list_all (accepted q) xs"
  shows "initialize_responses q (Some (map (\<lambda>r. RawResponse (response_json_data r)) xs)) =
         (Inr (), q\<lparr>responses := responses q @ xs\<rparr>)"
proof (cases xs)
  case Nil
  then show ?thesis by (simp add: initialize_responses_def)
next
  case (Cons x xs')
  with assms create_responses_accepted [OF assms] add_responses_accepted [OF assms]
  show ?thesis by (simp add: initialize_responses_def)
qed

lemma initialize_responses_self:
  assumes "well_formed q"
  shows "initialize_responses (Question_init (Some (object_id q)) fresh (qtype q) (variant q))
           (Some (map (\<lambda>r. RawResponse (response_json_data r)) (responses q))) = (Inr (), q)"
proof -
  let ?self = "Question_init (Some (object_id q)) fresh (qtype q) (variant q)"
  have "accepted ?self = accepted q"
    by (rule accepted_cong) (simp_all add: Question_init_def)
  with assms have "list_all (accepted ?self) (responses q)" by (simp add: well_formed_def)
  from initialize_responses_read_back [OF this]
  show ?thesis by (simp add: Question_init_def)
qed


lemma list_fromkeys_distinct: "distinct xs \<Longrightarrow> list_fromkeys xs = xs"
  by (simp add: list_fromkeys_first_occurrences first_occurrences_distinct)

lemma read_back_multiple_choice:
  assumes wf: "well_formed q" and v: "variant q = MultipleChoiceQuestion p cs a"
  shows "question_from_dictionary fresh (json_data q) = Inr q"
proof -
  from wf v have t: "qtype q = ''multiple_choice''" and d: "distinct cs" and a: "a \<in> set cs"
    by (simp_all add: well_formed_def)
  have kw: "MultipleChoiceQuestion_kwargs fresh
              [(''object_id'', JStr (object_id q)), (''prompt'', JStr p),
               (''choices'', JList (map JStr cs)), (''answer'', JStr a),
               (''responses'', responses_json q)]
            = MultipleChoiceQuestion_init p cs a
                (Some (map (\<lambda>r. RawResponse (response_json_data r)) (responses q)))
                (Some (object_id q)) fresh"
    by (simp add: MultipleChoiceQuestion_kwargs_def binds_def dict_get_def those_as_str
          as_responses_json)
  from initialize_responses_self [OF wf, of fresh] t v d a
  have "MultipleChoiceQuestion_init p cs a
          (Some (map (\<lambda>r. RawResponse (response_json_data r)) (responses q)))
          (Some (object_id q)) fresh = Inr q"
    by (simp add: MultipleChoiceQuestion_init_def list_fromkeys_distinct)
  with kw v show ?thesis
    by (simp add: question_from_dictionary_def json_data_def has_key_def dict_get_def)
qed

lemma read_back_matching:
  assumes wf: "well_formed q" and v: "variant q = MatchingQuestion p ls rs a"
  shows "question_from_dictionary fresh (json_data q) = Inr q"
proof -
  from wf v have t: "qtype q = ''matching''" and d: "distinct ls" "distinct rs"
    and a: "list_all (\<lambda>v. v \<in> set ls \<and> v \<in> set rs) (map snd a)"
    by (simp_all add: well_formed_def)
  have kw: "MatchingQuestion_kwargs fresh
              [(''object_id'', JStr (object_id q)), (''prompt'', JStr p),
               (''left_choices'', JList (map JStr ls)),
               (''right_choices'', JList (map JStr rs)),
               (''answer'', JDict (map (\<lambda>(k, v). (k, JStr v)) a)),
               (''responses'', responses_json q)]
            = MatchingQuestion_init p ls rs a
                (Some (map (\<lambda>r. RawResponse (response_json_data r)) (responses q)))
                (Some (object_id q)) fresh"
    by (simp add: MatchingQuestion_kwargs_def binds_def dict_get_def those_as_str
          those_as_str_items as_responses_json)
  from a have "list_all (\<lambda>v. v \<in> set ls) (map snd a)" and "list_all (\<lambda>v. v \<in> set rs) (map snd a)"
    by (simp_all add: list_all_iff)
  with initialize_responses_self [OF wf, of fresh] t v d
  have "MatchingQuestion_init p ls rs a
          (Some (map (\<lambda>r. RawResponse (response_json_data r)) (responses q)))
          (Some (object_id q)) fresh = Inr q"
    by (simp add: MatchingQuestion_init_def list_fromkeys_distinct Question_init_def)
  with kw v show ?thesis
    by (simp add: question_from_dictionary_def json_data_def has_key_def dict_get_def)
qed

lemma read_back_short_answer:
  assumes wf: "well_formed q" and v: "variant q = ShortAnswerQuestion p a"
  shows "question_from_dictionary fresh (json_data q) = Inr q"
proof -
  from wf v have t: "qtype q = ''short_answer''" by (simp add: well_formed_def)
  have kw: "ShortAnswerQuestion_kwargs fresh
              [(''object_id'', JStr (object_id q)), (''prompt'', JStr p),
               (''answer'', JStr a), (''responses'', responses_json q)]
            = ShortAnswerQuestion_init p a
                (Some (map (\<lambda>r. RawResponse (response_json_data r)) (responses q)))
                (Some (object_id q)) fresh"
    by (simp add: ShortAnswerQuestion_kwargs_def binds_def dict_get_def as_responses_json)
  from initialize_responses_self [OF wf, of fresh] t v
  have "ShortAnswerQuestion_init p a
          (Some (map (\<lambda>r. RawResponse (response_json_data r)) (responses q)))
          (Some (object_id q)) fresh = Inr q"
    by (simp add: ShortAnswerQuestion_init_def)
  with kw v show ?thesis
    by (simp add: question_from_dictionary_def json_data_def has_key_def dict_get_def)
qed

lemma read_back_fill_in_the_blank:
  assumes wf: "well_formed q" and v: "variant q = FillInTheBlankQuestion b af a"
  shows "question_from_dictionary fresh (json_data q) = Inr q"
proof -
  from wf v have t: "qtype q = ''fill_in_the_blank''" by (simp add: well_formed_def)
  have kw: "FillInTheBlankQuestion_kwargs fresh
              [(''object_id'', JStr (object_id q)), (''before_prompt'', JStr b),
               (''after_prompt'', JStr af), (''answer'', JStr a),
               (''responses'', responses_json q)]
            = FillInTheBlankQuestion_init b af a
                (Some (map (\<lambda>r. RawResponse (response_json_data r)) (responses q)))
                (Some (object_id q)) fresh"
    by (simp add: FillInTheBlankQuestion_kwargs_def binds_def dict_get_def as_responses_json)
  from initialize_responses_self [OF wf, of fresh] t v
  have "FillInTheBlankQuestion_init b af a
          (Some (map (\<lambda>r. RawResponse (response_json_data r)) (responses q)))
          (Some (object_id q)) fresh = Inr q"
    by (simp add: FillInTheBlankQuestion_init_def)
  with kw v show ?thesis
    by (simp add: question_from_dictionary_def json_data_def has_key_def dict_get_def)
qed

lemma read_back:
  assumes "well_formed q"
  shows "create_a_question fresh (ADict (json_data q)) = Inr q"
  using assms
  by (cases "variant q")
     (simp_all add: create_a_question_def read_back_multiple_choice read_back_matching
        read_back_short_answer read_back_fill_in_the_blank)

lemma question_eq_refl: "question_eq q q"
  by (cases "variant q") (simp_all add: question_eq_def)

lemma json_data_type:
  "well_formed q \<Longrightarrow> dict_get (json_data q) ''type'' = JStr (get_type q)"
  by (cases "variant q") (simp_all add: well_formed_def json_data_def dict_get_def get_type_def)


text \<open>
  Claim C2. For every question that was constructed (any of the four variants, with any
  responses attached), the \<^verbatim>\<open>type\<close> entry of \<^verbatim>\<open>json_data\<close> is the tag of the variant, and
  \<^verbatim>\<open>create_a_question\<close> on \<^verbatim>\<open>json_data\<close> returns a question equal to it in the sense of
  \<^verbatim>\<open>__eq__\<close>: the same variant and the same attributes, the responses included. The
  question returned is in fact the same value.
\<close>

theorem json_round_trip:
  assumes "constructed q"
  shows "dict_get (json_data q) ''type'' = JStr (get_type q) \<and>
         get_type q =
           (case variant q of
              MultipleChoiceQuestion p cs a \<Rightarrow> ''multiple_choice''
            | MatchingQuestion p ls rs a \<Rightarrow> ''matching''
            | ShortAnswerQuestion p a \<Rightarrow> ''short_answer''
            | FillInTheBlankQuestion b af a \<Rightarrow> ''fill_in_the_blank'') \<and>
         (\<exists>q'. create_a_question fresh (ADict (json_data q)) = Inr q' \<and> question_eq q' q)"
proof -
  from assms have wf: "well_formed q" by (rule constructed_well_formed)
  then have "get_type q =
           (case variant q of
              MultipleChoiceQuestion p cs a \<Rightarrow> ''multiple_choice''
            | MatchingQuestion p ls rs a \<Rightarrow> ''matching''
            | ShortAnswerQuestion p a \<Rightarrow> ''short_answer''
            | FillInTheBlankQuestion b af a \<Rightarrow> ''fill_in_the_blank'')"
    by (cases "variant q") (simp_all add: well_formed_def get_type_def)
  moreover from wf have "create_a_question fresh (ADict (json_data q)) = Inr q"
    by (rule read_back)
  ultimately show ?thesis using json_data_type [OF wf] question_eq_refl [of q] by simp
qed

theorem json_round_trip_witness:
  "constructed
     \<lparr>qtype = ''multiple_choice'', object_id = ''u'',
      responses = [Response [(''type'', JStr ''multiple_choice''), (''choice'', JStr ''4'')]],
      variant = MultipleChoiceQuestion ''2+2?'' [''3'', ''4'', ''5''] ''4''\<rparr> \<and>
   json_data
     \<lparr>qtype = ''multiple_choice'', object_id = ''u'',
      responses = [Response [(''type'', JStr ''multiple_choice''), (''choice'', JStr ''4'')]],
      variant = MultipleChoiceQuestion ''2+2?'' [''3'', ''4'', ''5''] ''4''\<rparr>
     = [(''kind'', JStr ''question''), (''object_id'', JStr ''u''),
        (''type'', JStr ''multiple_choice''), (''prompt'', JStr ''2+2?''),
        (''choices'', JList [JStr ''3'', JStr ''4'', JStr ''5'']),
        (''answer'', JStr ''4''),
        (''responses'',
           JList [JDict [(''type'', JStr ''multiple_choice''), (''choice'', JStr ''4'')]])] \<and>
   create_a_question ''v''
     (ADict [(''kind'', JStr ''question''), (''object_id'', JStr ''u''),
        (''type'', JStr ''multiple_choice''), (''prompt'', JStr ''2+2?''),
        (''choices'', JList [JStr ''3'', JStr ''4'', JStr ''5'']),
        (''answer'', JStr ''4''),
        (''responses'',
           JList [JDict [(''type'', JStr ''multiple_choice''), (''choice'', JStr ''4'')]])])
     = Inr \<lparr>qtype = ''multiple_choice'', object_id = ''u'',
        responses = [Response [(''type'', JStr ''multiple_choice''), (''choice'', JStr ''4'')]],
        variant = MultipleChoiceQuestion ''2+2?'' [''3'', ''4'', ''5''] ''4''\<rparr> \<and>
   question_eq
     \<lparr>qtype = ''multiple_choice'', object_id = ''u'',
      responses = [Response [(''type'', JStr ''multiple_choice''), (''choice'', JStr ''4'')]],
      variant = MultipleChoiceQuestion ''2+2?'' [''3'', ''4'', ''5''] ''4''\<rparr>
     \<lparr>qtype = ''multiple_choice'', object_id = ''u'',
      responses = [Response [(''type'', JStr ''multiple_choice''), (''choice'', JStr ''4'')]],
      variant = MultipleChoiceQuestion ''2+2?'' [''3'', ''4'', ''5''] ''4''\<rparr>"
proof -
  let ?r = "Response [(''type'', JStr ''multiple_choice''), (''choice'', JStr ''4'')]"
  let ?empty = "\<lparr>qtype = ''multiple_choice'', object_id = ''u'', responses = [],
              variant = MultipleChoiceQuestion ''2+2?'' [''3'', ''4'', ''5''] ''4''\<rparr>"
  let ?q = "\<lparr>qtype = ''multiple_choice'', object_id = ''u'', responses = [?r],
             variant = MultipleChoiceQuestion ''2+2?'' [''3'', ''4'', ''5''] ''4''\<rparr>"
  have "MultipleChoiceQuestion_init ''2+2?'' [''3'', ''4'', ''5''] ''4'' None None ''u'' = Inr ?empty"
    by (simp add: MultipleChoiceQuestion_init_def Question_init_def initialize_responses_def
          list_fromkeys_def)
  then have "constructed ?empty" by (rule constructed.multiple_choice)
  moreover have "add_response ?empty ?r = (Inr (), ?q)"
    by (simp add: add_response_def response_get_type_def get_type_def dict_get_def has_key_def)
  ultimately have c: "constructed ?q" by (rule constructed.response_added)
  have j: "json_data ?q = [(''kind'', JStr ''question''), (''object_id'', JStr ''u''),
        (''type'', JStr ''multiple_choice''), (''prompt'', JStr ''2+2?''),
        (''choices'', JList [JStr ''3'', JStr ''4'', JStr ''5'']),
        (''answer'', JStr ''4''),
        (''responses'',
           JList [JDict [(''type'', JStr ''multiple_choice''), (''choice'', JStr ''4'')]])]"
    by (simp add: json_data_def responses_json_def)
  from json_round_trip [OF c, of "''v''"] obtain q'
    where "create_a_question ''v'' (ADict (json_data ?q)) = Inr q'" and "question_eq q' ?q"
    by blast
  moreover have "create_a_question ''v'' (ADict (json_data ?q)) = Inr ?q"
    unfolding j
    by (simp add: create_a_question_def question_from_dictionary_def has_key_def dict_get_def
          MultipleChoiceQuestion_kwargs_def binds_def MultipleChoiceQuestion_init_def
          Question_init_def initialize_responses_def create_a_response_def list_fromkeys_def
          add_response_def response_get_type_def get_type_def)
  ultimately have "question_eq ?q ?q" by simp
  with c j \<open>create_a_question ''v'' (ADict (json_data ?q)) = Inr ?q\<close> show ?thesis by simp
qed

end
